theory Spec2Isabelle
  imports Main "HOL-Library.Word"
begin

section \<open>JavaScript values, exceptions and state\<close>

text \<open>
  The program is \<^verbatim>\<open>lib/primitives/abstractblock.js\<close>, the header object that every
  block-like object of the node inherits from. JavaScript is dynamically typed, so a
  property of an object holds a value of any kind. \<open>JNum\<close> carries the integral numbers
  and \<open>JNaN\<close> the not-a-number value; doubles with a fractional part are not represented.
  A string is a list of 8-bit characters, which is what the \<^verbatim>\<open>'binary'\<close> encoding
  of the source can write and read back; a \<open>Buffer\<close> is a list of bytes.
\<close>

type_synonym byte = "8 word"

datatype jsval =
    JUndefined
  | JNull
  | JBool bool
  | JNum int
  | JNaN
  | JStr string
  | JBuf "byte list"
  | JObj "(string \<times> jsval) list"

text \<open>What \<^verbatim>\<open>if (v)\<close> and \<^verbatim>\<open>!v\<close> test.\<close>

fun truthy :: "jsval \<Rightarrow> bool" where
  "truthy JUndefined = False"
| "truthy JNull = False"
| "truthy (JBool b) = b"
| "truthy (JNum n) = (n \<noteq> 0)"
| "truthy JNaN = False"
| "truthy (JStr s) = (s \<noteq> [])"
| "truthy (JBuf bs) = True"
| "truthy (JObj kvs) = True"

text \<open>
  Property lookup \<^verbatim>\<open>o.k\<close> on a value that is neither \<^verbatim>\<open>null\<close> nor
  \<^verbatim>\<open>undefined\<close>: a missing property reads as \<^verbatim>\<open>undefined\<close>.
\<close>

fun getprop :: "jsval \<Rightarrow> string \<Rightarrow> jsval" where
  "getprop (JObj kvs) k = (case map_of kvs k of Some v \<Rightarrow> v | None \<Rightarrow> JUndefined)"
| "getprop v k = JUndefined"

text \<open>\<^verbatim>\<open>typeof v === 'string'\<close>\<close>

fun is_string :: "jsval \<Rightarrow> bool" where
  "is_string (JStr s) = True"
| "is_string v = False"

text \<open>\<^verbatim>\<open>v != null\<close> (loose inequality: false for \<^verbatim>\<open>null\<close> and \<^verbatim>\<open>undefined\<close>).\<close>

fun not_nullish :: "jsval \<Rightarrow> bool" where
  "not_nullish JUndefined = False"
| "not_nullish JNull = False"
| "not_nullish v = True"

text \<open>
  Exceptions. An \<^verbatim>\<open>assert(c, msg)\<close> that fails throws an assertion error that carries
  \<open>msg\<close>; an \<^verbatim>\<open>assert(c)\<close> carries no message of the program's own.
\<close>

datatype error =
    AssertionError "string option"
  | ReferenceError string
  | Error string
  | EncodeError
  | DecodeError

datatype 'a outcome = Returns 'a | Throws error

text \<open>
  A statement runs in a state and either returns or throws; in both cases the state
  it leaves behind is part of the result, so that a partial mutation before a throw
  is visible.
\<close>

type_synonym ('s, 'a) js = "'s \<Rightarrow> 'a outcome \<times> 's"

definition returnJ :: "'a \<Rightarrow> ('s, 'a) js" where
  "returnJ a s = (Returns a, s)"

definition throwJ :: "error \<Rightarrow> ('s, 'a) js" where
  "throwJ e s = (Throws e, s)"

definition bindJ :: "('s, 'a) js \<Rightarrow> ('a \<Rightarrow> ('s, 'b) js) \<Rightarrow> ('s, 'b) js" where
  "bindJ m f s = (case m s of (Returns a, s') \<Rightarrow> f a s' | (Throws e, s') \<Rightarrow> (Throws e, s'))"

definition thenJ :: "('s, unit) js \<Rightarrow> ('s, 'b) js \<Rightarrow> ('s, 'b) js" where
  "thenJ m k = bindJ m (\<lambda>_. k)"

text \<open>A block of statements, run in order up to the first throw.\<close>

fun seqJ :: "('s, unit) js list \<Rightarrow> ('s, unit) js" where
  "seqJ [] = returnJ ()"
| "seqJ (m # ms) = thenJ m (seqJ ms)"

definition assertJ :: "bool \<Rightarrow> string option \<Rightarrow> ('s, unit) js" where
  "assertJ c msg = (if c then returnJ () else throwJ (AssertionError msg))"

definition modifyJ :: "('s \<Rightarrow> 's) \<Rightarrow> ('s, unit) js" where
  "modifyJ f s = (Returns (), f s)"

section \<open>The block object\<close>

text \<open>
  The properties the constructor sets. The twelve header fields hold JavaScript values;
  \<open>txs\<close> is \<^verbatim>\<open>null\<close> or the transaction vector (the transaction type is a
  parameter, its object model lives in another module); the four cache slots
  \<^verbatim>\<open>_hash\<close>, \<^verbatim>\<open>_hhash\<close>, \<^verbatim>\<open>_size\<close>, \<^verbatim>\<open>_witness\<close> are
  \<open>hash_slot\<close>, \<open>hhash_slot\<close>, \<open>size_slot\<close>, \<open>witness_slot\<close>. The prototype
  flag \<^verbatim>\<open>memory\<close> and the methods \<^verbatim>\<open>rhash\<close> and \<^verbatim>\<open>toInv\<close> take no
  part in what follows and are left out.
\<close>

record 'tx block =
  version :: jsval
  prevHash :: jsval
  merkleRoot :: jsval
  hashMerkleRootWithData :: jsval
  hashMerkleRootWithPrevData :: jsval
  time :: jsval
  bits :: jsval
  nonce :: jsval
  outpointhash :: jsval
  outpointn :: jsval
  blocksigsize :: jsval
  blocksig :: jsval
  txs :: "'tx list option"
  groupSize :: jsval
  prevContractData :: jsval
  mutable :: bool
  hash_slot :: "byte list option"
  hhash_slot :: "string option"
  size_slot :: int
  witness_slot :: int

text \<open>
  Modelled from the spec: the constant \<^verbatim>\<open>encoding.NULL_HASH\<close> of
  \<^verbatim>\<open>lib/utils/encoding.js\<close>, a fixed-length (32-byte) hash digest, hex-encoded in
  memory, all zero.
\<close>

definition NULL_HASH :: string where
  "NULL_HASH = replicate 64 (CHR ''0'')"

definition AbstractBlock :: "'tx block" where
  "AbstractBlock = \<lparr>
     version = JNum 1,
     prevHash = JStr NULL_HASH,
     merkleRoot = JStr NULL_HASH,
     hashMerkleRootWithData = JStr NULL_HASH,
     hashMerkleRootWithPrevData = JStr NULL_HASH,
     time = JNum 0,
     bits = JNum 0,
     nonce = JNum 0,
     outpointhash = JStr NULL_HASH,
     outpointn = JNum 0,
     blocksigsize = JNum 0,
     blocksig = JNull,
     txs = None,
     groupSize = JNull,
     prevContractData = JNull,
     mutable = False,
     hash_slot = None,
     hhash_slot = None,
     size_slot = - 1,
     witness_slot = - 1 \<rparr>"

subsection \<open>Construction from options and from JSON\<close>

text \<open>
  \<^verbatim>\<open>util.isNumber\<close> lives in \<^verbatim>\<open>lib/utils/util.js\<close>; it is the parameter
  \<open>isNumber\<close>. All nine assertions come before the first assignment.
\<close>

definition parseOptions :: "(jsval \<Rightarrow> bool) \<Rightarrow> jsval \<Rightarrow> ('tx block, unit) js" where
  "parseOptions isNumber options = seqJ [
     assertJ (truthy options) (Some ''Block data is required.''),
     assertJ (isNumber (getprop options ''version'')) None,
     assertJ (is_string (getprop options ''prevHash'')) None,
     assertJ (is_string (getprop options ''merkleRoot'')) None,
     assertJ (is_string (getprop options ''hashMerkleRootWithData'')) None,
     assertJ (is_string (getprop options ''hashMerkleRootWithPrevData'')) None,
     assertJ (isNumber (getprop options ''time'')) None,
     assertJ (isNumber (getprop options ''bits'')) None,
     assertJ (isNumber (getprop options ''nonce'')) None,
     modifyJ (\<lambda>this. this\<lparr>version := getprop options ''version''\<rparr>),
     modifyJ (\<lambda>this. this\<lparr>prevHash := getprop options ''prevHash''\<rparr>),
     modifyJ (\<lambda>this. this\<lparr>merkleRoot := getprop options ''merkleRoot''\<rparr>),
     modifyJ (\<lambda>this. this\<lparr>hashMerkleRootWithData := getprop options ''hashMerkleRootWithData''\<rparr>),
     modifyJ (\<lambda>this. this\<lparr>hashMerkleRootWithPrevData :=
                               getprop options ''hashMerkleRootWithPrevData''\<rparr>),
     modifyJ (\<lambda>this. this\<lparr>time := getprop options ''time''\<rparr>),
     modifyJ (\<lambda>this. this\<lparr>bits := getprop options ''bits''\<rparr>),
     modifyJ (\<lambda>this. this\<lparr>nonce := getprop options ''nonce''\<rparr>),
     modifyJ (\<lambda>this. this\<lparr>outpointhash := getprop options ''outpointhash''\<rparr>),
     modifyJ (\<lambda>this. this\<lparr>outpointn := getprop options ''outpointn''\<rparr>),
     modifyJ (\<lambda>this. this\<lparr>blocksigsize := getprop options ''blocksigsize''\<rparr>),
     modifyJ (\<lambda>this. this\<lparr>blocksig := getprop options ''blocksig''\<rparr>),
     (if not_nullish (getprop options ''mutable'')
      then modifyJ (\<lambda>this. this\<lparr>mutable := truthy (getprop options ''mutable'')\<rparr>)
      else returnJ ())]"

text \<open>
  The body of \<^verbatim>\<open>parseJSON(json)\<close> never mentions \<open>json\<close>: every read is of the
  identifier \<^verbatim>\<open>options\<close>, which neither the function nor the module declares, so it
  resolves in the global scope \<open>globals\<close>. Reading an identifier that is bound nowhere
  throws a reference error.
\<close>

definition parseJSON ::
  "(jsval \<Rightarrow> bool) \<Rightarrow> (string \<Rightarrow> jsval option) \<Rightarrow> jsval \<Rightarrow> ('tx block, unit) js" where
  "parseJSON isNumber globals json =
     (case globals ''options'' of
        None \<Rightarrow> throwJ (ReferenceError ''options'')
      | Some options \<Rightarrow> seqJ [
          assertJ (truthy options) (Some ''Block data is required.''),
          assertJ (isNumber (getprop options ''version'')) None,
          assertJ (is_string (getprop options ''prevHash'')) None,
          assertJ (is_string (getprop options ''merkleRoot'')) None,
          assertJ (is_string (getprop options ''hashMerkleRootWithData'')) None,
          assertJ (is_string (getprop options ''hashMerkleRootWithPrevData'')) None,
          assertJ (isNumber (getprop options ''time'')) None,
          assertJ (isNumber (getprop options ''bits'')) None,
          assertJ (isNumber (getprop options ''nonce'')) None,
          modifyJ (\<lambda>this. this\<lparr>version := getprop options ''version''\<rparr>),
          modifyJ (\<lambda>this. this\<lparr>prevHash := getprop options ''prevHash''\<rparr>),
          modifyJ (\<lambda>this. this\<lparr>merkleRoot := getprop options ''merkleRoot''\<rparr>),
          modifyJ (\<lambda>this. this\<lparr>hashMerkleRootWithData :=
                                    getprop options ''hashMerkleRootWithData''\<rparr>),
          modifyJ (\<lambda>this. this\<lparr>hashMerkleRootWithPrevData :=
                                    getprop options ''hashMerkleRootWithPrevData''\<rparr>),
          modifyJ (\<lambda>this. this\<lparr>time := getprop options ''time''\<rparr>),
          modifyJ (\<lambda>this. this\<lparr>bits := getprop options ''bits''\<rparr>),
          modifyJ (\<lambda>this. this\<lparr>nonce := getprop options ''nonce''\<rparr>),
          modifyJ (\<lambda>this. this\<lparr>outpointhash := getprop options ''outpointhash''\<rparr>),
          modifyJ (\<lambda>this. this\<lparr>outpointn := getprop options ''outpointn''\<rparr>),
          modifyJ (\<lambda>this. this\<lparr>blocksigsize := getprop options ''blocksigsize''\<rparr>),
          modifyJ (\<lambda>this. this\<lparr>blocksig := getprop options ''blocksig''\<rparr>)])"

subsection \<open>Clearing the caches\<close>

text \<open>
  \<^verbatim>\<open>for (let tx of this.txs) tx.refresh();\<close> The transaction's own
  \<^verbatim>\<open>refresh\<close> is the parameter \<open>tx_refresh\<close>; the loop stops at the first
  transaction whose \<^verbatim>\<open>refresh\<close> throws and leaves the later ones untouched.
\<close>

fun refresh_txs :: "('tx, unit) js \<Rightarrow> 'tx list \<Rightarrow> unit outcome \<times> 'tx list" where
  "refresh_txs tx_refresh [] = (Returns (), [])"
| "refresh_txs tx_refresh (tx # rest) =
     (case tx_refresh tx of
        (Throws e, tx') \<Rightarrow> (Throws e, tx' # rest)
      | (Returns u, tx') \<Rightarrow>
          (case refresh_txs tx_refresh rest of (r, rest') \<Rightarrow> (r, tx' # rest')))"

definition refresh_impl :: "('tx, unit) js \<Rightarrow> jsval \<Rightarrow> ('tx block, unit) js" where
  "refresh_impl tx_refresh all this =
     (let this = this\<lparr>hash_slot := None\<rparr>;
          this = this\<lparr>hhash_slot := None\<rparr>;
          this = this\<lparr>size_slot := - 1\<rparr>;
          this = this\<lparr>witness_slot := - 1\<rparr>
      in if \<not> truthy all then (Returns (), this)
         else (case txs this of
                 None \<Rightarrow> (Returns (), this)
               | Some ts \<Rightarrow>
                   (case refresh_txs tx_refresh ts of
                      (r, ts') \<Rightarrow> (r, this\<lparr>txs := Some ts'\<rparr>))))"

text \<open>
  \<^verbatim>\<open>refresh(all)\<close> returns \<^verbatim>\<open>this._refresh(all)\<close>, which is
  \<open>refresh_impl\<close> above.
\<close>

definition refresh :: "('tx, unit) js \<Rightarrow> jsval \<Rightarrow> ('tx block, unit) js" where
  "refresh tx_refresh all = refresh_impl tx_refresh all"

section \<open>The binary codec\<close>

text \<open>
  The writer \<^verbatim>\<open>WriteBuffer\<close> (\<^verbatim>\<open>lib/utils/writer.js\<close>) and the buffer
  reader (\<^verbatim>\<open>lib/utils/reader.js\<close>) are other modules of the repository. This
  section models them from the spec, which fixes the wire format: all integers
  little-endian, a hash 32 bytes, the signature length a variable-length integer, the
  signature raw bytes; a reader fails with a decode error if the buffer is exhausted.
  A writer is the list of bytes written so far, a reader the list of bytes not yet read.
  The spec describes the encoding of a value of the field's type only; on any other
  value a write raises \<open>EncodeError\<close>.
\<close>

text \<open>
  Modelled from the spec: what the writer and the reader share, which is little-endian
  integers of a given number of bytes, the hex form of a digest (two digits for each
  byte, lower case when produced, either case when consumed) and the \<^verbatim>\<open>'binary'\<close>
  string encoding (one byte for each character).
\<close>

fun le_encode :: "nat \<Rightarrow> nat \<Rightarrow> byte list" where
  "le_encode 0 n = []"
| "le_encode (Suc k) n = of_nat (n mod 256) # le_encode k (n div 256)"

fun le_decode :: "byte list \<Rightarrow> nat" where
  "le_decode [] = 0"
| "le_decode (b # bs) = unat b + 256 * le_decode bs"

definition hex_digit :: "nat \<Rightarrow> char" where
  "hex_digit d = char_of (if d < 10 then 48 + d else 87 + d)"

definition hex_value :: "char \<Rightarrow> nat option" where
  "hex_value c =
     (let n = (of_char c :: nat)
      in if 48 \<le> n \<and> n \<le> 57 then Some (n - 48)
         else if 97 \<le> n \<and> n \<le> 102 then Some (n - 87)
         else if 65 \<le> n \<and> n \<le> 70 then Some (n - 55)
         else None)"

fun hex_decode :: "string \<Rightarrow> byte list option" where
  "hex_decode [] = Some []"
| "hex_decode [c] = None"
| "hex_decode (c1 # c2 # cs) =
     (case hex_value c1 of
        None \<Rightarrow> None
      | Some h \<Rightarrow>
          (case hex_value c2 of
             None \<Rightarrow> None
           | Some l \<Rightarrow>
               (case hex_decode cs of
                  None \<Rightarrow> None
                | Some bs \<Rightarrow> Some (of_nat (16 * h + l) # bs))))"

fun hex_encode :: "byte list \<Rightarrow> string" where
  "hex_encode [] = []"
| "hex_encode (b # bs) = hex_digit (unat b div 16) # hex_digit (unat b mod 16) # hex_encode bs"

definition byte_of_char :: "char \<Rightarrow> byte" where
  "byte_of_char c = of_nat (of_char c)"

definition char_of_byte :: "byte \<Rightarrow> char" where
  "char_of_byte b = char_of (unat b)"

text \<open>
  Modelled from the spec: the variable-length integer of the codec, taken to be the
  length prefix of the Bitcoin wire format (one byte below 253, else a marker byte 253,
  254 or 255 followed by 2, 4 or 8 little-endian bytes).
\<close>

definition varint :: "nat \<Rightarrow> byte list" where
  "varint n =
     (if n < 253 then [of_nat n]
      else if n \<le> 65535 then 253 # le_encode 2 n
      else if n \<le> 4294967295 then 254 # le_encode 4 n
      else 255 # le_encode 8 n)"

subsection \<open>Writer\<close>

text \<open>Modelled from the spec: \<^verbatim>\<open>WriteBuffer.writeU32\<close>, an unsigned 32-bit integer.\<close>

fun writeU32 :: "jsval \<Rightarrow> (byte list, unit) js" where
  "writeU32 (JNum n) bw =
     (if 0 \<le> n \<and> n < 4294967296 then (Returns (), bw @ le_encode 4 (nat n))
      else (Throws EncodeError, bw))"
| "writeU32 v bw = (Throws EncodeError, bw)"

text \<open>
  Modelled from the spec: \<^verbatim>\<open>WriteBuffer.write32\<close>, a signed 32-bit integer
  (two's complement).
\<close>

fun write32 :: "jsval \<Rightarrow> (byte list, unit) js" where
  "write32 (JNum n) bw =
     (if - 2147483648 \<le> n \<and> n < 2147483648
      then (Returns (), bw @ le_encode 4 (nat (n mod 4294967296)))
      else (Throws EncodeError, bw))"
| "write32 v bw = (Throws EncodeError, bw)"

text \<open>
  Modelled from the spec: \<^verbatim>\<open>WriteBuffer.writeHash\<close>, a fixed-length (32-byte) digest
  that is hex-encoded in memory. Hex digits of either case are accepted.
\<close>

fun writeHash :: "jsval \<Rightarrow> (byte list, unit) js" where
  "writeHash (JStr s) bw =
     (if length s = 64
      then (case hex_decode s of
              Some bs \<Rightarrow> (Returns (), bw @ bs)
            | None \<Rightarrow> (Throws EncodeError, bw))
      else (Throws EncodeError, bw))"
| "writeHash v bw = (Throws EncodeError, bw)"

text \<open>Modelled from the spec: \<^verbatim>\<open>WriteBuffer.writeVarint\<close>.\<close>

fun writeVarint :: "jsval \<Rightarrow> (byte list, unit) js" where
  "writeVarint (JNum n) bw =
     (if 0 \<le> n \<and> n < 18446744073709551616 then (Returns (), bw @ varint (nat n))
      else (Throws EncodeError, bw))"
| "writeVarint v bw = (Throws EncodeError, bw)"

text \<open>
  Modelled from the spec: \<^verbatim>\<open>WriteBuffer.writeString\<close>, raw bytes. Only the
  \<^verbatim>\<open>'binary'\<close> encoding, one byte for each character, is modelled.
\<close>

fun writeString :: "jsval \<Rightarrow> string \<Rightarrow> (byte list, unit) js" where
  "writeString (JStr s) enc bw =
     (if enc = ''binary'' then (Returns (), bw @ map byte_of_char s)
      else (Throws EncodeError, bw))"
| "writeString v enc bw = (Throws EncodeError, bw)"

subsection \<open>Reader\<close>

text \<open>Modelled from the spec: \<^verbatim>\<open>BufferReader.readU32\<close>.\<close>

definition readU32 :: "(byte list, jsval) js" where
  "readU32 br =
     (if length br < 4 then (Throws DecodeError, br)
      else (Returns (JNum (int (le_decode (take 4 br)))), drop 4 br))"

text \<open>Modelled from the spec: \<^verbatim>\<open>BufferReader.read32\<close>.\<close>

definition read32 :: "(byte list, jsval) js" where
  "read32 br =
     (if length br < 4 then (Throws DecodeError, br)
      else (let n = int (le_decode (take 4 br))
            in (Returns (JNum (if n < 2147483648 then n else n - 4294967296)), drop 4 br)))"

text \<open>
  Modelled from the spec: \<^verbatim>\<open>BufferReader.readHash\<close>. Only the \<^verbatim>\<open>'hex'\<close>
  result, a string of lower-case hex digits, is modelled.
\<close>

definition readHash :: "string \<Rightarrow> (byte list, jsval) js" where
  "readHash enc br =
     (if enc \<noteq> ''hex'' \<or> length br < 32 then (Throws DecodeError, br)
      else (Returns (JStr (hex_encode (take 32 br))), drop 32 br))"

text \<open>Modelled from the spec: \<^verbatim>\<open>BufferReader.readVarint\<close>.\<close>

fun readVarint :: "(byte list, jsval) js" where
  "readVarint [] = (Throws DecodeError, [])"
| "readVarint (b # br) =
     (if unat b < 253 then (Returns (JNum (int (unat b))), br)
      else (let k = (if unat b = 253 then 2 else if unat b = 254 then 4 else 8)
            in if length br < k then (Throws DecodeError, b # br)
               else (Returns (JNum (int (le_decode (take k br)))), drop k br)))"

text \<open>
  Modelled from the spec: \<^verbatim>\<open>BufferReader.readString\<close>, exactly \<open>size\<close> bytes
  in the \<^verbatim>\<open>'binary'\<close> encoding.
\<close>

fun readString :: "string \<Rightarrow> jsval \<Rightarrow> (byte list, jsval) js" where
  "readString enc (JNum n) br =
     (if enc \<noteq> ''binary'' \<or> n < 0 \<or> int (length br) < n then (Throws DecodeError, br)
      else (Returns (JStr (map char_of_byte (take (nat n) br))), drop (nat n) br))"
| "readString enc v br = (Throws DecodeError, br)"

section \<open>Serializing and parsing the header\<close>

definition writeAbbr :: "'tx block \<Rightarrow> (byte list, unit) js" where
  "writeAbbr this = seqJ [
     writeU32 (version this),
     writeHash (prevHash this),
     writeHash (merkleRoot this),
     writeHash (hashMerkleRootWithData this),
     writeHash (hashMerkleRootWithPrevData this),
     writeU32 (time this),
     writeU32 (bits this),
     writeU32 (nonce this),
     writeHash (outpointhash this),
     write32 (outpointn this),
     writeVarint (blocksigsize this),
     writeString (blocksig this) ''binary'']"

text \<open>
  \<^verbatim>\<open>abbr()\<close> serializes into a fresh writer and renders it. It does not change
  the block.
\<close>

definition abbr :: "'tx block \<Rightarrow> byte list outcome" where
  "abbr this =
     (case writeAbbr this [] of
        (Returns u, bw) \<Rightarrow> Returns bw
      | (Throws e, bw) \<Rightarrow> Throws e)"

text \<open>
  One statement \<^verbatim>\<open>this.f = br.read...()\<close> of \<^verbatim>\<open>parseAbbr\<close>: the state is the
  block and the reader. The reader call of the last statement takes its size from the
  block as it is at that point. The two \<^verbatim>\<open>console.log\<close> calls write to the
  console, which is not part of the state.
\<close>

definition assignJ ::
  "('b \<Rightarrow> (byte list, jsval) js) \<Rightarrow> (jsval \<Rightarrow> 'b \<Rightarrow> 'b) \<Rightarrow> ('b \<times> byte list, unit) js" where
  "assignJ rd upd = (\<lambda>(this, br).
     (case rd this br of
        (Returns v, br') \<Rightarrow> (Returns (), (upd v this, br'))
      | (Throws e, br') \<Rightarrow> (Throws e, (this, br'))))"

definition parseAbbr :: "('tx block \<times> byte list, unit) js" where
  "parseAbbr = seqJ [
     assignJ (\<lambda>this. readU32) (\<lambda>v this. this\<lparr>version := v\<rparr>),
     assignJ (\<lambda>this. readHash ''hex'') (\<lambda>v this. this\<lparr>prevHash := v\<rparr>),
     assignJ (\<lambda>this. readHash ''hex'') (\<lambda>v this. this\<lparr>merkleRoot := v\<rparr>),
     assignJ (\<lambda>this. readHash ''hex'') (\<lambda>v this. this\<lparr>hashMerkleRootWithData := v\<rparr>),
     assignJ (\<lambda>this. readHash ''hex'') (\<lambda>v this. this\<lparr>hashMerkleRootWithPrevData := v\<rparr>),
     assignJ (\<lambda>this. readU32) (\<lambda>v this. this\<lparr>time := v\<rparr>),
     assignJ (\<lambda>this. readU32) (\<lambda>v this. this\<lparr>bits := v\<rparr>),
     assignJ (\<lambda>this. readU32) (\<lambda>v this. this\<lparr>nonce := v\<rparr>),
     assignJ (\<lambda>this. readHash ''hex'') (\<lambda>v this. this\<lparr>outpointhash := v\<rparr>),
     assignJ (\<lambda>this. read32) (\<lambda>v this. this\<lparr>outpointn := v\<rparr>),
     assignJ (\<lambda>this. readVarint) (\<lambda>v this. this\<lparr>blocksigsize := v\<rparr>),
     assignJ (\<lambda>this. readString ''binary'' (blocksigsize this))
             (\<lambda>v this. this\<lparr>blocksig := v\<rparr>)]"

section \<open>Hashing and verification\<close>

text \<open>
  \<^verbatim>\<open>digest.hash256\<close> (\<^verbatim>\<open>lib/crypto/digest.js\<close>) is the parameter
  \<open>hash256\<close>. A \<open>Buffer\<close> is always truthy, so \<^verbatim>\<open>!hash\<close> holds exactly when
  the slot is \<^verbatim>\<open>null\<close>; the hex slot is a string, which is also falsy when empty.
  \<^verbatim>\<open>hash.toString('hex')\<close> is \<open>hex_encode\<close>.
\<close>

definition hash :: "(byte list \<Rightarrow> byte list) \<Rightarrow> jsval \<Rightarrow> ('tx block, jsval) js" where
  "hash hash256 enc =
     bindJ
       (\<lambda>this.
          case hash_slot this of
            Some h \<Rightarrow> (Returns h, this)
          | None \<Rightarrow>
              (case abbr this of
                 Throws e \<Rightarrow> (Throws e, this)
               | Returns raw \<Rightarrow>
                   (Returns (hash256 raw),
                    if \<not> mutable this then this\<lparr>hash_slot := Some (hash256 raw)\<rparr>
                    else this)))
       (\<lambda>h this.
          if enc = JStr ''hex''
          then (case hhash_slot this of
                  Some (c # cs) \<Rightarrow> (Returns (JStr (c # cs)), this)
                | _ \<Rightarrow>
                    (Returns (JStr (hex_encode h)),
                     if \<not> mutable this then this\<lparr>hhash_slot := Some (hex_encode h)\<rparr>
                     else this))
          else (Returns (JBuf h), this))"

text \<open>
  \<^verbatim>\<open>consensus.verifyPOW\<close> (\<^verbatim>\<open>lib/protocol/consensus.js\<close>) is the parameter
  \<open>consensus_verifyPOW\<close>.
\<close>

definition verifyPOW ::
  "(jsval \<Rightarrow> jsval \<Rightarrow> bool) \<Rightarrow> (byte list \<Rightarrow> byte list) \<Rightarrow> ('tx block, bool) js" where
  "verifyPOW consensus_verifyPOW hash256 =
     bindJ (hash hash256 JUndefined)
       (\<lambda>h this. (Returns (consensus_verifyPOW h (bits this)), this))"

text \<open>The body check of the abstract base.\<close>

definition verifyBody :: "('s, bool) js" where
  "verifyBody = throwJ (Error ''Abstract method.'')"

text \<open>
  \<^verbatim>\<open>verify()\<close> calls \<^verbatim>\<open>this.verifyPOW()\<close> and \<^verbatim>\<open>this.verifyBody()\<close>,
  which resolve to the methods of the concrete object: they are the parameters
  \<open>this_verifyPOW\<close> and \<open>this_verifyBody\<close>.
\<close>

definition verify :: "('s, bool) js \<Rightarrow> ('s, bool) js \<Rightarrow> ('s, bool) js" where
  "verify this_verifyPOW this_verifyBody =
     bindJ this_verifyPOW
       (\<lambda>pow. if \<not> pow then returnJ False
              else bindJ this_verifyBody
                     (\<lambda>body. if \<not> body then returnJ False else returnJ True))"

section \<open>Well-formed headers and sample collaborators\<close>

text \<open>
  A header is well-formed when each field holds a value of the type the wire format
  gives it: the four integers unsigned 32-bit, the five hashes 64 lower-case hex
  digits (the form the reader produces), \<open>outpointn\<close> signed 32-bit, \<open>blocksig\<close>
  a string and \<open>blocksigsize\<close> its length.
\<close>

fun is_u32 :: "jsval \<Rightarrow> bool" where
  "is_u32 (JNum n) = (0 \<le> n \<and> n < 4294967296)"
| "is_u32 v = False"

fun is_i32 :: "jsval \<Rightarrow> bool" where
  "is_i32 (JNum n) = (- 2147483648 \<le> n \<and> n < 2147483648)"
| "is_i32 v = False"

definition is_lower_hex :: "char \<Rightarrow> bool" where
  "is_lower_hex c =
     (let n = (of_char c :: nat) in (48 \<le> n \<and> n \<le> 57) \<or> (97 \<le> n \<and> n \<le> 102))"

fun is_hash :: "jsval \<Rightarrow> bool" where
  "is_hash (JStr s) = (length s = 64 \<and> list_all is_lower_hex s)"
| "is_hash v = False"

fun sig_matches :: "jsval \<Rightarrow> jsval \<Rightarrow> bool" where
  "sig_matches (JNum n) (JStr s) = (n = int (length s) \<and> n < 18446744073709551616)"
| "sig_matches v w = False"

definition valid_header :: "'tx block \<Rightarrow> bool" where
  "valid_header this \<longleftrightarrow>
     is_u32 (version this) \<and>
     is_hash (prevHash this) \<and>
     is_hash (merkleRoot this) \<and>
     is_hash (hashMerkleRootWithData this) \<and>
     is_hash (hashMerkleRootWithPrevData this) \<and>
     is_u32 (time this) \<and>
     is_u32 (bits this) \<and>
     is_u32 (nonce this) \<and>
     is_hash (outpointhash this) \<and>
     is_i32 (outpointn this) \<and>
     sig_matches (blocksigsize this) (blocksig this)"

text \<open>
  The wire format of the spec's table, field by field, for a well-formed header.
\<close>

fun num_of :: "jsval \<Rightarrow> int" where
  "num_of (JNum n) = n"
| "num_of v = 0"

fun str_of :: "jsval \<Rightarrow> string" where
  "str_of (JStr s) = s"
| "str_of v = []"

definition hex_bytes :: "string \<Rightarrow> byte list" where
  "hex_bytes s = (case hex_decode s of Some bs \<Rightarrow> bs | None \<Rightarrow> [])"

definition wire_format :: "'tx block \<Rightarrow> byte list list" where
  "wire_format this = [
     le_encode 4 (nat (num_of (version this))),
     hex_bytes (str_of (prevHash this)),
     hex_bytes (str_of (merkleRoot this)),
     hex_bytes (str_of (hashMerkleRootWithData this)),
     hex_bytes (str_of (hashMerkleRootWithPrevData this)),
     le_encode 4 (nat (num_of (time this))),
     le_encode 4 (nat (num_of (bits this))),
     le_encode 4 (nat (num_of (nonce this))),
     hex_bytes (str_of (outpointhash this)),
     le_encode 4 (nat (num_of (outpointn this) mod 4294967296)),
     varint (nat (num_of (blocksigsize this))),
     map byte_of_char (str_of (blocksig this))]"

text \<open>The twelve header fields of a block, in the order of the wire format.\<close>

definition header_fields :: "'tx block \<Rightarrow> jsval list" where
  "header_fields this = [
     version this, prevHash this, merkleRoot this, hashMerkleRootWithData this,
     hashMerkleRootWithPrevData this, time this, bits this, nonce this,
     outpointhash this, outpointn this, blocksigsize this, blocksig this]"

text \<open>
  What \<^verbatim>\<open>parseOptions\<close> asserts of its argument, and the message of the assertion
  that fails first when the argument is absent.
\<close>

definition required_fields_ok :: "(jsval \<Rightarrow> bool) \<Rightarrow> jsval \<Rightarrow> bool" where
  "required_fields_ok isNumber options \<longleftrightarrow>
     truthy options \<and>
     isNumber (getprop options ''version'') \<and>
     is_string (getprop options ''prevHash'') \<and>
     is_string (getprop options ''merkleRoot'') \<and>
     is_string (getprop options ''hashMerkleRootWithData'') \<and>
     is_string (getprop options ''hashMerkleRootWithPrevData'') \<and>
     isNumber (getprop options ''time'') \<and>
     isNumber (getprop options ''bits'') \<and>
     isNumber (getprop options ''nonce'')"

text \<open>
  Modelled from the spec: \<^verbatim>\<open>util.isNumber\<close>, "numeric fields must be valid
  numbers".
\<close>

fun util_isNumber :: "jsval \<Rightarrow> bool" where
  "util_isNumber (JNum n) = True"
| "util_isNumber v = False"

text \<open>
  Modelled from the spec: \<^verbatim>\<open>consensus.verifyPOW(hash, bits)\<close>. The compact
  encoding is a byte exponent and a 3-byte mantissa whose top bit is the sign; the
  hash is read as a little-endian integer; the check passes iff the target is positive,
  fits 256 bits and is not below the hash.
\<close>

fun consensus_verifyPOW :: "jsval \<Rightarrow> jsval \<Rightarrow> bool" where
  "consensus_verifyPOW (JBuf h) (JNum n) =
     (let exponent = nat n div 16777216;
          negative = (nat n div 8388608) mod 2 = 1;
          mantissa = nat n mod 8388608;
          target = (if exponent \<le> 3 then mantissa div 256 ^ (3 - exponent)
                    else mantissa * 256 ^ (exponent - 3))
      in 0 \<le> n \<and> n < 4294967296 \<and> \<not> negative \<and> target \<noteq> 0 \<and> target < 2 ^ 256 \<and>
         le_decode h \<le> target)"
| "consensus_verifyPOW v w = False"

text \<open>
  The digest function is a parameter of every definition above. To run them on a
  concrete header the following function stands in for it (the first 32 bytes of the
  zero-padded input); no property below depends on the choice.
\<close>

definition sample_hash256 :: "byte list \<Rightarrow> byte list" where
  "sample_hash256 raw = take 32 (raw @ replicate 32 0)"

text \<open>
  A transaction reduced to its cached hash, with the \<^verbatim>\<open>refresh\<close> that clears it.
\<close>

type_synonym sample_tx = "byte list option"

definition sample_tx_refresh :: "(sample_tx, unit) js" where
  "sample_tx_refresh tx = (Returns (), None)"

text \<open>A well-formed options object and the header built from it.\<close>

definition sample_options :: jsval where
  "sample_options = JObj [
     (''version'', JNum 1),
     (''prevHash'', JStr NULL_HASH),
     (''merkleRoot'', JStr NULL_HASH),
     (''hashMerkleRootWithData'', JStr NULL_HASH),
     (''hashMerkleRootWithPrevData'', JStr NULL_HASH),
     (''time'', JNum 1500000000),
     (''bits'', JNum 486604799),
     (''nonce'', JNum 7),
     (''outpointhash'', JStr NULL_HASH),
     (''outpointn'', JNum (- 1)),
     (''blocksigsize'', JNum 2),
     (''blocksig'', JStr ''ab'')]"

definition sample_block :: "sample_tx block" where
  "sample_block = snd (parseOptions util_isNumber sample_options AbstractBlock)"

text \<open>
  Modelled from the spec: the body check of the headers-only variant
  (\<^verbatim>\<open>lib/primitives/headers.js\<close>), "trivially true, there is no body".
\<close>

definition Headers_verifyBody :: "('s, bool) js" where
  "Headers_verifyBody = returnJ True"

text \<open>
  Modelled from the spec: a body check that finds a mismatch, "ordinary
  boolean/negative results, not exceptions".
\<close>

definition mismatch_verifyBody :: "('s, bool) js" where
  "mismatch_verifyBody = returnJ False"

text \<open>
  The sample header with a compact target of zero, which no hash satisfies.
\<close>

definition zero_bits_block :: "sample_tx block" where
  "zero_bits_block = sample_block\<lparr>bits := JNum 0\<rparr>"

text \<open>
  The digest of the current field values: what \<^verbatim>\<open>hash()\<close> returns when it computes.
\<close>

definition fresh_digest :: "(byte list \<Rightarrow> byte list) \<Rightarrow> 'tx block \<Rightarrow> jsval outcome" where
  "fresh_digest hash256 this =
     (case abbr this of Returns raw \<Rightarrow> Returns (JBuf (hash256 raw)) | Throws e \<Rightarrow> Throws e)"

text \<open>
  The sample header after \<^verbatim>\<open>hash()\<close>.
\<close>

definition hashed_block :: "sample_tx block" where
  "hashed_block = snd (hash sample_hash256 JUndefined sample_block)"



text \<open>
  The sample options with \<open>prevHash\<close> written in upper-case hex digits, and the
  header built from them.
\<close>

definition upper_options :: jsval where
  "upper_options = JObj [
     (''version'', JNum 1),
     (''prevHash'', JStr (replicate 64 (CHR ''A''))),
     (''merkleRoot'', JStr NULL_HASH),
     (''hashMerkleRootWithData'', JStr NULL_HASH),
     (''hashMerkleRootWithPrevData'', JStr NULL_HASH),
     (''time'', JNum 1500000000),
     (''bits'', JNum 486604799),
     (''nonce'', JNum 7),
     (''outpointhash'', JStr NULL_HASH),
     (''outpointn'', JNum (- 1)),
     (''blocksigsize'', JNum 2),
     (''blocksig'', JStr ''ab'')]"

definition upper_block :: "sample_tx block" where
  "upper_block = snd (parseOptions util_isNumber upper_options AbstractBlock)"







text \<open>
  The sample header with another version, and the hashed sample header after
  \<^verbatim>\<open>parseAbbr\<close> has decoded the bytes of that header into it.
\<close>

definition other_block :: "sample_tx block" where
  "other_block = sample_block\<lparr>version := JNum 2\<rparr>"

definition reparsed_block :: "sample_tx block" where
  "reparsed_block = fst (snd (parseAbbr (hashed_block, concat (wire_format other_block))))"

text \<open>
  An options object that passes every assertion although \<open>prevHash\<close> is not the hex
  form of a digest, and one that fails the assertion on \<open>version\<close>.
\<close>

definition misshapen_options :: jsval where
  "misshapen_options = JObj [
     (''version'', JNum 1),
     (''prevHash'', JStr ''zz''),
     (''merkleRoot'', JStr NULL_HASH),
     (''hashMerkleRootWithData'', JStr NULL_HASH),
     (''hashMerkleRootWithPrevData'', JStr NULL_HASH),
     (''time'', JNum 0),
     (''bits'', JNum 0),
     (''nonce'', JNum 0)]"

definition versionless_options :: jsval where
  "versionless_options = JObj [(''prevHash'', JStr NULL_HASH)]"

text \<open>
  A statement preserves a property of the state when the property holds after the
  statement, returned or thrown, whenever it held before. \<open>same_caches a b\<close>: block
  \<open>b\<close> agrees with \<open>a\<close> on everything but the twelve header fields.
\<close>

definition preserves :: "('s \<Rightarrow> bool) \<Rightarrow> ('s, 'a) js \<Rightarrow> bool" where
  "preserves P m \<longleftrightarrow> (\<forall>s r s'. P s \<longrightarrow> m s = (r, s') \<longrightarrow> P s')"

definition same_caches :: "'tx block \<Rightarrow> 'tx block \<Rightarrow> bool" where
  "same_caches a b \<longleftrightarrow>
     hash_slot b = hash_slot a \<and> hhash_slot b = hhash_slot a \<and>
     size_slot b = size_slot a \<and> witness_slot b = witness_slot a \<and>
     mutable b = mutable a \<and> txs b = txs a \<and>
     groupSize b = groupSize a \<and> prevContractData b = prevContractData a"

section \<open>Statements and sequences\<close>

lemmas js_defs = returnJ_def throwJ_def bindJ_def thenJ_def assertJ_def modifyJ_def

lemma seqJ_Cons_Returns:
  "seqJ (m # ms) s = (Returns u, s'') \<longleftrightarrow>
     (\<exists>s'. m s = (Returns (), s') \<and> seqJ ms s' = (Returns u, s''))"
  by (auto simp: js_defs split: prod.splits outcome.splits)

lemma seqJ_Nil_Returns: "seqJ [] s = (Returns u, s') \<longleftrightarrow> s' = s"
  by (auto simp: returnJ_def)

lemma preserves_seqJ_Nil: "preserves P (seqJ [])"
  by (simp add: preserves_def returnJ_def)

lemma preserves_seqJ_Cons:
  assumes m: "preserves P m" and ms: "preserves P (seqJ ms)"
  shows "preserves P (seqJ (m # ms))"
  unfolding preserves_def
proof (intro allI impI)
  fix s r s'
  assume P: "P s" and run: "seqJ (m # ms) s = (r, s')"
  obtain r1 s1 where m1: "m s = (r1, s1)" by (cases "m s")
  with m P have P1: "P s1" unfolding preserves_def by blast
  show "P s'"
  proof (cases r1)
    case (Returns u)
    with m1 run have "seqJ ms s1 = (r, s')" by (simp add: js_defs)
    with ms P1 show ?thesis unfolding preserves_def by blast
  next
    case (Throws e)
    with m1 run have "s' = s1" by (simp add: js_defs)
    with P1 show ?thesis by simp
  qed
qed

section \<open>The sample header\<close>

lemma sample_block_eq:
  "sample_block =
     \<lparr>version = JNum 1, prevHash = JStr NULL_HASH, merkleRoot = JStr NULL_HASH,
      hashMerkleRootWithData = JStr NULL_HASH, hashMerkleRootWithPrevData = JStr NULL_HASH,
      time = JNum 1500000000, bits = JNum 486604799, nonce = JNum 7,
      outpointhash = JStr NULL_HASH, outpointn = JNum (- 1), blocksigsize = JNum 2,
      blocksig = JStr ''ab'', txs = None, groupSize = JNull, prevContractData = JNull,
      mutable = False, hash_slot = None, hhash_slot = None, size_slot = - 1,
      witness_slot = - 1\<rparr>"
  by (simp add: sample_block_def parseOptions_def sample_options_def AbstractBlock_def js_defs)

lemma sample_block_facts:
  "hash_slot sample_block = None" "\<not> mutable sample_block"
  "bits sample_block = JNum 486604799" "prevHash sample_block = JStr NULL_HASH"
  "version sample_block = JNum 1"
  by (simp_all add: sample_block_eq)

section \<open>Construction\<close>

text \<open>
  C5, as the code has it. \<^verbatim>\<open>parseOptions\<close> asserts that the options argument is
  present, that \<open>version\<close>, \<open>time\<close>, \<open>bits\<close> and \<open>nonce\<close> satisfy
  \<^verbatim>\<open>util.isNumber\<close> and that \<open>prevHash\<close>, \<open>merkleRoot\<close>,
  \<open>hashMerkleRootWithData\<close> and \<open>hashMerkleRootWithPrevData\<close> are strings. If one of
  these assertions fails the call throws an assertion error before any assignment and the
  block is left as it was; the error carries the message "Block data is required." when
  the argument is absent and no message otherwise. If all hold, the twelve fields are
  copied from the options, and \<open>mutable\<close> is set when the options give it.
\<close>

theorem parseOptions_checks:
  "parseOptions isNumber options this =
     (if required_fields_ok isNumber options
      then (Returns (),
            this\<lparr>version := getprop options ''version'',
                 prevHash := getprop options ''prevHash'',
                 merkleRoot := getprop options ''merkleRoot'',
                 hashMerkleRootWithData := getprop options ''hashMerkleRootWithData'',
                 hashMerkleRootWithPrevData := getprop options ''hashMerkleRootWithPrevData'',
                 time := getprop options ''time'',
                 bits := getprop options ''bits'',
                 nonce := getprop options ''nonce'',
                 outpointhash := getprop options ''outpointhash'',
                 outpointn := getprop options ''outpointn'',
                 blocksigsize := getprop options ''blocksigsize'',
                 blocksig := getprop options ''blocksig'',
                 mutable := (if not_nullish (getprop options ''mutable'')
                             then truthy (getprop options ''mutable'') else mutable this)\<rparr>)
      else (Throws (AssertionError
                      (if truthy options then None else Some ''Block data is required.'')),
            this))"
  by (simp add: parseOptions_def required_fields_ok_def js_defs)

theorem parseOptions_checks_witness:
  "required_fields_ok util_isNumber sample_options \<and>
   parseOptions util_isNumber sample_options (AbstractBlock :: sample_tx block) =
     (Returns (), sample_block) \<and>
   \<not> required_fields_ok util_isNumber JUndefined \<and>
   parseOptions util_isNumber JUndefined (AbstractBlock :: sample_tx block) =
     (Throws (AssertionError (Some ''Block data is required.'')), AbstractBlock)"
proof -
  have ok: "required_fields_ok util_isNumber sample_options"
    by (simp add: required_fields_ok_def sample_options_def)
  have no: "\<not> required_fields_ok util_isNumber JUndefined"
    by (simp add: required_fields_ok_def)
  from ok
    parseOptions_checks [of util_isNumber sample_options "AbstractBlock :: sample_tx block"]
  have "fst (parseOptions util_isNumber sample_options (AbstractBlock :: sample_tx block)) = Returns ()"
    by simp
  then have "parseOptions util_isNumber sample_options (AbstractBlock :: sample_tx block) =
      (Returns (), sample_block)"
    by (simp add: sample_block_def prod_eq_iff)
  moreover from no
    parseOptions_checks [of util_isNumber JUndefined "AbstractBlock :: sample_tx block"]
  have "parseOptions util_isNumber JUndefined (AbstractBlock :: sample_tx block) =
      (Throws (AssertionError (Some ''Block data is required.'')), AbstractBlock)"
    by simp
  ultimately show ?thesis using ok no by simp
qed

text \<open>
  C5 as the spec words it fails twice: an options object whose \<open>prevHash\<close> is the string
  \<open>zz\<close>, not the hex form of a digest, is accepted and stored; and an options object
  without \<open>version\<close> is rejected with an error that names no field.
\<close>

theorem parseOptions_shape_counterexample:
  "\<not> is_hash (JStr ''zz'') \<and>
   fst (parseOptions util_isNumber misshapen_options (AbstractBlock :: sample_tx block)) = Returns () \<and>
   prevHash (snd (parseOptions util_isNumber misshapen_options (AbstractBlock :: sample_tx block))) =
     JStr ''zz'' \<and>
   fst (parseOptions util_isNumber versionless_options (AbstractBlock :: sample_tx block)) =
     Throws (AssertionError None)"
  by (simp add: parseOptions_def misshapen_options_def versionless_options_def js_defs)

text \<open>
  C8. \<^verbatim>\<open>parseJSON\<close> does not depend on its argument, and when no global
  \<^verbatim>\<open>options\<close> exists every call throws a reference error and leaves the block as
  it was.
\<close>

theorem parseJSON_ignores_json:
  "parseJSON isNumber globals json this = parseJSON isNumber globals json' this \<and>
   (globals ''options'' = None \<longrightarrow>
      parseJSON isNumber globals json this = (Throws (ReferenceError ''options''), this))"
  by (simp add: parseJSON_def throwJ_def)

theorem parseJSON_ignores_json_witness:
  "Map.empty ''options'' = (None :: jsval option) \<and>
   required_fields_ok util_isNumber sample_options \<and>
   parseJSON util_isNumber Map.empty sample_options (AbstractBlock :: sample_tx block) =
     (Throws (ReferenceError ''options''), AbstractBlock)"
proof -
  have "required_fields_ok util_isNumber sample_options"
    by (simp add: required_fields_ok_def sample_options_def)
  moreover have "parseJSON util_isNumber Map.empty sample_options (AbstractBlock :: sample_tx block) =
      (Throws (ReferenceError ''options''), AbstractBlock)"
    using parseJSON_ignores_json
      [of util_isNumber Map.empty sample_options "AbstractBlock :: sample_tx block" JUndefined,
        THEN conjunct2]
    by simp
  ultimately show ?thesis by simp
qed

section \<open>Clearing the caches\<close>

lemma refresh_txs_all_return:
  "\<forall>tx\<in>set ts. fst (tx_refresh tx) = Returns () \<Longrightarrow>
   refresh_txs tx_refresh ts = (Returns (), map (\<lambda>tx. snd (tx_refresh tx)) ts)"
  by (induction ts) (auto split: prod.splits outcome.splits)

text \<open>
  C9. \<^verbatim>\<open>refresh(all)\<close> resets the four cache slots and changes nothing else of the
  block but, possibly, \<open>txs\<close>; in particular the twelve header fields keep their values.
  When \<open>all\<close> is falsy or \<open>txs\<close> is \<^verbatim>\<open>null\<close>, \<open>txs\<close> is left alone. When
  \<open>all\<close> is truthy and \<open>txs\<close> is present, the transactions are refreshed in order,
  and if none of their \<^verbatim>\<open>refresh\<close> calls throws, each transaction of \<open>txs\<close>
  is the refreshed one.
\<close>

theorem refresh_clears_caches:
  assumes "refresh tx_refresh all this = (r, this')"
  shows "this' = this\<lparr>hash_slot := None, hhash_slot := None, size_slot := - 1,
                       witness_slot := - 1, txs := txs this'\<rparr> \<and>
         header_fields this' = header_fields this \<and>
         (\<not> truthy all \<or> txs this = None \<longrightarrow> r = Returns () \<and> txs this' = txs this) \<and>
         (truthy all \<longrightarrow> (\<forall>ts. txs this = Some ts \<longrightarrow>
            r = fst (refresh_txs tx_refresh ts) \<and>
            txs this' = Some (snd (refresh_txs tx_refresh ts)) \<and>
            ((\<forall>tx\<in>set ts. fst (tx_refresh tx) = Returns ()) \<longrightarrow>
               r = Returns () \<and> txs this' = Some (map (\<lambda>tx. snd (tx_refresh tx)) ts))))"
  using assms
  by (auto simp: refresh_def refresh_impl_def header_fields_def Let_def refresh_txs_all_return
           split: if_splits option.splits prod.splits)

theorem refresh_clears_caches_witness:
  "truthy (JBool True) \<and>
   fst (sample_tx_refresh (Some [1])) = Returns () \<and>
   fst (sample_tx_refresh None) = Returns () \<and>
   refresh sample_tx_refresh (JBool True)
     (sample_block\<lparr>hash_slot := Some [7], txs := Some [Some [1], None]\<rparr>) =
     (Returns (), sample_block\<lparr>txs := Some [None, None]\<rparr>) \<and>
   truthy JUndefined = False \<and>
   refresh sample_tx_refresh JUndefined
     (sample_block\<lparr>hash_slot := Some [7], txs := Some [Some [1], None]\<rparr>) =
     (Returns (), sample_block\<lparr>txs := Some [Some [1], None]\<rparr>)"
proof -
  let ?b = "sample_block\<lparr>hash_slot := Some [7], txs := Some [Some [1], None]\<rparr>"
  obtain r this' where run: "refresh sample_tx_refresh (JBool True) ?b = (r, this')"
    by (cases "refresh sample_tx_refresh (JBool True) ?b")
  have ret: "\<forall>tx\<in>set [Some [1], None]. fst (sample_tx_refresh tx) = Returns ()"
    by (simp add: sample_tx_refresh_def)
  note rc = refresh_clears_caches [OF run]
  from rc have eq: "this' = ?b\<lparr>hash_slot := None, hhash_slot := None, size_slot := - 1,
                          witness_slot := - 1, txs := txs this'\<rparr>"
    by (rule conjunct1)
  from rc ret have r: "r = Returns ()" and t: "txs this' = Some [None, None]"
    by (simp_all add: sample_tx_refresh_def)
  have "?b\<lparr>hash_slot := None, hhash_slot := None, size_slot := - 1,
             witness_slot := - 1, txs := Some [None, None]\<rparr> =
        sample_block\<lparr>txs := Some [None, None]\<rparr>"
    by (simp add: sample_block_eq)
  with eq [unfolded t] have "this' = sample_block\<lparr>txs := Some [None, None]\<rparr>"
    by simp
  with run r have deep: "refresh sample_tx_refresh (JBool True) ?b =
      (Returns (), sample_block\<lparr>txs := Some [None, None]\<rparr>)"
    by simp
  obtain q that' where run': "refresh sample_tx_refresh JUndefined ?b = (q, that')"
    by (cases "refresh sample_tx_refresh JUndefined ?b")
  note rc' = refresh_clears_caches [OF run']
  from rc' have eq': "that' = ?b\<lparr>hash_slot := None, hhash_slot := None, size_slot := - 1,
                          witness_slot := - 1, txs := txs that'\<rparr>"
    by (rule conjunct1)
  from rc' have q: "q = Returns ()" and t': "txs that' = Some [Some [1], None]"
    by simp_all
  have "?b\<lparr>hash_slot := None, hhash_slot := None, size_slot := - 1,
             witness_slot := - 1, txs := Some [Some [1], None]\<rparr> =
        sample_block\<lparr>txs := Some [Some [1], None]\<rparr>"
    by (simp add: sample_block_eq)
  with eq' [unfolded t'] have "that' = sample_block\<lparr>txs := Some [Some [1], None]\<rparr>"
    by simp
  with run' q have shallow: "refresh sample_tx_refresh JUndefined ?b =
      (Returns (), sample_block\<lparr>txs := Some [Some [1], None]\<rparr>)"
    by simp
  from deep shallow ret show ?thesis by simp
qed

section \<open>The codec is an inverse pair\<close>

lemma length_le_encode [simp]: "length (le_encode k n) = k"
  by (induction k arbitrary: n) auto

lemma unat_byte_of_nat: "unat (of_nat m :: byte) = m mod 256"
  by (simp add: unat_of_nat)

lemma le_decode_encode: "n < 256 ^ k \<Longrightarrow> le_decode (le_encode k n) = n"
proof (induction k arbitrary: n)
  case 0
  then show ?case by simp
next
  case (Suc k)
  from Suc.prems have "n div 256 < 256 ^ k"
    by (simp add: less_mult_imp_div_less mult.commute)
  then have "le_decode (le_encode k (n div 256)) = n div 256"
    by (rule Suc.IH)
  then show ?case
    by (simp add: unat_byte_of_nat)
qed

lemma hex_value_digit: "d < 16 \<Longrightarrow> hex_value (hex_digit d) = Some d"
  by (auto simp: hex_value_def hex_digit_def Let_def)

lemma hex_digit_value:
  "is_lower_hex c \<Longrightarrow> \<exists>d < 16. hex_value c = Some d \<and> hex_digit d = c"
  by (auto simp: hex_value_def hex_digit_def is_lower_hex_def Let_def)

lemma hex_encode_decode:
  "list_all is_lower_hex s \<Longrightarrow> even (length s) \<Longrightarrow>
   \<exists>bs. hex_decode s = Some bs \<and> hex_encode bs = s \<and> 2 * length bs = length s"
proof (induction s rule: hex_decode.induct)
  case 1
  then show ?case by simp
next
  case (2 c)
  then show ?case by simp
next
  case (3 c1 c2 cs)
  from "3.prems" have "is_lower_hex c1" "is_lower_hex c2" by simp_all
  then obtain h l where h: "h < 16" "hex_value c1 = Some h" "hex_digit h = c1"
    and l: "l < 16" "hex_value c2 = Some l" "hex_digit l = c2"
    using hex_digit_value by blast
  from "3.prems" have "list_all is_lower_hex cs" "even (length cs)" by simp_all
  with "3.IH" h l obtain bs where bs: "hex_decode cs = Some bs" "hex_encode bs = cs"
    "2 * length bs = length cs"
    by blast
  have "unat (of_nat (16 * h + l) :: byte) = (16 * h + l) mod 256"
    by (rule unat_byte_of_nat)
  also have "\<dots> = 16 * h + l"
    using h(1) l(1) by simp
  finally have "unat (of_nat (16 * h + l) :: byte) = 16 * h + l" .
  with h l bs show ?case by simp
qed

lemma char_of_byte_of_char [simp]: "char_of_byte (byte_of_char c) = c"
  by (simp add: char_of_byte_def byte_of_char_def unat_byte_of_nat)

lemma map_char_of_byte_of_char [simp]: "map (char_of_byte \<circ> byte_of_char) s = s"
  by (induction s) auto

lemma readU32_le_encode:
  "n < 4294967296 \<Longrightarrow> readU32 (le_encode 4 n @ rest) = (Returns (JNum (int n)), rest)"
  using le_decode_encode [of n 4] by (simp add: readU32_def)

lemma read32_le_encode:
  assumes "- 2147483648 \<le> n" "n < 2147483648"
  shows "read32 (le_encode 4 (nat (n mod 4294967296)) @ rest) = (Returns (JNum n), rest)"
proof -
  let ?m = "nat (n mod 4294967296)"
  have m: "?m < 4294967296" by simp
  have "le_decode (le_encode 4 ?m) = ?m"
    using le_decode_encode [of ?m 4] m by simp
  moreover have "int ?m = n mod 4294967296" by simp
  moreover have "(if n mod 4294967296 < 2147483648 then n mod 4294967296
                  else n mod 4294967296 - 4294967296) = n"
  proof (cases "0 \<le> n")
    case True
    with assms have "n mod 4294967296 = n" by simp
    with assms show ?thesis by simp
  next
    case False
    from assms False have "(n + 4294967296) mod 4294967296 = n + 4294967296"
      by (intro mod_pos_pos_trivial) simp_all
    then have "n mod 4294967296 = n + 4294967296"
      by simp
    with False assms show ?thesis by simp
  qed
  ultimately show ?thesis
    by (simp add: read32_def Let_def)
qed

lemma readHash_hex_bytes:
  assumes "length s = 64" "list_all is_lower_hex s"
  shows "\<exists>bs. hex_decode s = Some bs \<and> length bs = 32 \<and>
              readHash ''hex'' (bs @ rest) = (Returns (JStr s), rest)"
proof -
  from assms obtain bs where "hex_decode s = Some bs" "hex_encode bs = s" "2 * length bs = length s"
    using hex_encode_decode [of s] by auto
  with assms show ?thesis by (simp add: readHash_def)
qed

lemma length_varint: "length (varint n) \<in> {1, 3, 5, 9}"
  by (simp add: varint_def)

lemma readVarint_varint:
  assumes "n < 18446744073709551616"
  shows "readVarint (varint n @ rest) = (Returns (JNum (int n)), rest)"
proof -
  consider "n < 253" | "253 \<le> n" "n \<le> 65535" | "65535 < n" "n \<le> 4294967295" | "4294967295 < n"
    by linarith
  then show ?thesis
  proof cases
    case 1
    then show ?thesis by (simp add: varint_def unat_byte_of_nat)
  next
    case 2
    then have "le_decode (le_encode 2 n) = n" using le_decode_encode [of n 2] by simp
    with 2 show ?thesis by (simp add: varint_def)
  next
    case 3
    then have "le_decode (le_encode 4 n) = n" using le_decode_encode [of n 4] by simp
    with 3 show ?thesis by (simp add: varint_def)
  next
    case 4
    with assms have "le_decode (le_encode 8 n) = n" using le_decode_encode [of n 8] by simp
    with 4 show ?thesis by (simp add: varint_def)
  qed
qed

lemma readString_binary:
  "readString ''binary'' (JNum (int (length s))) (map byte_of_char s @ rest) = (Returns (JStr s), rest)"
  by simp

lemma hex_decode_length: "hex_decode s = Some bs \<Longrightarrow> 2 * length bs = length s"
  by (induction s arbitrary: bs rule: hex_decode.induct) (auto split: option.splits)

lemma writeU32_valid:
  "is_u32 v \<Longrightarrow> writeU32 v bw = (Returns (), bw @ le_encode 4 (nat (num_of v)))"
  by (cases v) auto

lemma write32_valid:
  "is_i32 v \<Longrightarrow> write32 v bw = (Returns (), bw @ le_encode 4 (nat (num_of v mod 4294967296)))"
  by (cases v) auto

lemma writeHash_valid:
  assumes "is_hash v"
  shows "writeHash v bw = (Returns (), bw @ hex_bytes (str_of v))"
proof -
  from assms obtain s where s: "v = JStr s" "length s = 64" "list_all is_lower_hex s"
    by (cases v) auto
  then obtain bs where "hex_decode s = Some bs"
    using hex_encode_decode [of s] by auto
  with s show ?thesis by (simp add: hex_bytes_def)
qed

lemma writeVarint_valid:
  "sig_matches n s \<Longrightarrow> writeVarint n bw = (Returns (), bw @ varint (nat (num_of n)))"
  by (cases n; cases s) auto

lemma writeString_valid:
  "sig_matches n s \<Longrightarrow>
   writeString s ''binary'' bw = (Returns (), bw @ map byte_of_char (str_of s))"
  by (cases n; cases s) auto

lemma readU32_valid:
  "is_u32 v \<Longrightarrow> readU32 (le_encode 4 (nat (num_of v)) @ rest) = (Returns v, rest)"
  using readU32_le_encode [of "nat (num_of v)" rest] by (cases v) auto

lemma read32_valid:
  "is_i32 v \<Longrightarrow>
   read32 (le_encode 4 (nat (num_of v mod 4294967296)) @ rest) = (Returns v, rest)"
  using read32_le_encode [of "num_of v" rest] by (cases v) auto

lemma readHash_valid:
  assumes "is_hash v"
  shows "readHash ''hex'' (hex_bytes (str_of v) @ rest) = (Returns v, rest)"
proof -
  from assms obtain s where s: "v = JStr s" "length s = 64" "list_all is_lower_hex s"
    by (cases v) auto
  then obtain bs where "hex_decode s = Some bs"
    "readHash ''hex'' (bs @ rest) = (Returns (JStr s), rest)"
    using readHash_hex_bytes [of s rest] by auto
  with s show ?thesis by (simp add: hex_bytes_def)
qed

lemma readVarint_valid:
  "sig_matches n s \<Longrightarrow> readVarint (varint (nat (num_of n)) @ rest) = (Returns n, rest)"
  using readVarint_varint [of "nat (num_of n)" rest] by (cases n; cases s) auto

lemma readString_valid:
  "sig_matches n s \<Longrightarrow>
   readString ''binary'' n (map byte_of_char (str_of s) @ rest) = (Returns s, rest)"
  by (cases n; cases s) auto


section \<open>The wire format\<close>

lemma writeU32_Returns:
  "writeU32 v bw = (Returns u, out) \<Longrightarrow> out = bw @ le_encode 4 (nat (num_of v))"
  by (cases v) (auto split: if_splits)

lemma write32_Returns:
  "write32 v bw = (Returns u, out) \<Longrightarrow>
   out = bw @ le_encode 4 (nat (num_of v mod 4294967296))"
  by (cases v) (auto split: if_splits)

lemma writeHash_Returns:
  "writeHash v bw = (Returns u, out) \<Longrightarrow>
   out = bw @ hex_bytes (str_of v) \<and> length (hex_bytes (str_of v)) = 32"
  by (cases v) (auto simp: hex_bytes_def split: if_splits option.splits dest: hex_decode_length)

lemma writeVarint_Returns:
  "writeVarint v bw = (Returns u, out) \<Longrightarrow> out = bw @ varint (nat (num_of v))"
  by (cases v) (auto split: if_splits)

lemma writeString_Returns:
  "writeString v enc bw = (Returns u, out) \<Longrightarrow> out = bw @ map byte_of_char (str_of v)"
  by (cases v) (auto split: if_splits)

lemma writeAbbr_Returns:
  assumes "writeAbbr this bw = (Returns (), out)"
  shows "out = bw @ concat (wire_format this) \<and>
         map length (wire_format this) =
           [4, 32, 32, 32, 32, 4, 4, 4, 32, 4,
            length (varint (nat (num_of (blocksigsize this)))),
            length (str_of (blocksig this))]"
  using assms
  unfolding writeAbbr_def seqJ_Cons_Returns seqJ_Nil_Returns
  by (auto simp: wire_format_def dest!: writeU32_Returns write32_Returns writeHash_Returns
      writeVarint_Returns writeString_Returns)


lemma writeAbbr_valid:
  assumes "valid_header h"
  shows "writeAbbr h bw = (Returns (), bw @ concat (wire_format h))"
proof -
  from assms have sg: "sig_matches (blocksigsize h) (blocksig h)"
    by (simp add: valid_header_def)
  from assms show ?thesis
    by (simp add: valid_header_def writeAbbr_def wire_format_def js_defs
        writeU32_valid write32_valid writeHash_valid
        writeVarint_valid [OF sg] writeString_valid [OF sg])
qed

lemma abbr_valid: "valid_header h \<Longrightarrow> abbr h = Returns (concat (wire_format h))"
  by (simp add: abbr_def writeAbbr_valid)

lemma parseAbbr_wire_format:
  assumes "valid_header h"
  shows "\<exists>this'. parseAbbr (this, concat (wire_format h) @ rest) = (Returns (), this', rest) \<and>
           header_fields this' = header_fields h"
proof -
  from assms have sg: "sig_matches (blocksigsize h) (blocksig h)"
    by (simp add: valid_header_def)
  from assms show ?thesis
    by (simp add: valid_header_def parseAbbr_def wire_format_def js_defs assignJ_def
        header_fields_def readU32_valid read32_valid readHash_valid
        readVarint_valid [OF sg] readString_valid [OF sg])
qed

lemma is_hash_NULL_HASH: "is_hash (JStr NULL_HASH)"
  by (simp add: NULL_HASH_def is_lower_hex_def list_all_iff)

lemma valid_sample_block: "valid_header sample_block"
  using is_hash_NULL_HASH by (simp add: sample_block_eq valid_header_def)

text \<open>
  C3. Whenever \<^verbatim>\<open>writeAbbr\<close> returns, what it has appended to the writer is the
  wire format of the spec's table: the twelve fields in that order and nothing else,
  4 bytes for \<open>version\<close>, 32 for each of the four hashes, 4 for each of \<open>time\<close>,
  \<open>bits\<close> and \<open>nonce\<close>, 32 for \<open>outpointhash\<close>, 4 for the signed \<open>outpointn\<close>,
  then \<open>blocksigsize\<close> as a variable-length integer of 1, 3, 5 or 9 bytes and the
  characters of \<open>blocksig\<close> one byte each. On a well-formed header it does return.
\<close>

theorem writeAbbr_wire_format:
  "(writeAbbr this bw = (Returns (), out) \<longrightarrow>
      out = bw @ concat (wire_format this) \<and>
      map length (wire_format this) =
        [4, 32, 32, 32, 32, 4, 4, 4, 32, 4,
         length (varint (nat (num_of (blocksigsize this)))),
         length (str_of (blocksig this))] \<and>
      length (varint (nat (num_of (blocksigsize this)))) \<in> {1, 3, 5, 9}) \<and>
   (valid_header this \<longrightarrow> writeAbbr this bw = (Returns (), bw @ concat (wire_format this)))"
  using writeAbbr_Returns [of this bw out] writeAbbr_valid [of this bw]
    length_varint [of "nat (num_of (blocksigsize this))"]
  by blast

theorem writeAbbr_wire_format_witness:
  "valid_header sample_block \<and>
   writeAbbr sample_block [] = (Returns (), concat (wire_format sample_block)) \<and>
   map length (wire_format sample_block) =
     [4, 32, 32, 32, 32, 4, 4, 4, 32, 4, 1, 2]"
proof -
  have v: "valid_header sample_block"
    by (rule valid_sample_block)
  note wf = writeAbbr_wire_format
    [of sample_block "[]" "concat (wire_format sample_block)"]
  from wf v have w: "writeAbbr sample_block [] =
      (Returns (), concat (wire_format sample_block))"
    by simp
  with wf have "map length (wire_format sample_block) =
      [4, 32, 32, 32, 32, 4, 4, 4, 32, 4,
       length (varint (nat (num_of (blocksigsize sample_block)))),
       length (str_of (blocksig sample_block))]"
    by blast
  then have "map length (wire_format sample_block) =
      [4, 32, 32, 32, 32, 4, 4, 4, 32, 4, 1, 2]"
    by (simp add: sample_block_eq varint_def)
  with v w show ?thesis by simp
qed

text \<open>
  C2, as the code has it. For a well-formed header \<open>h\<close>, whose five hashes are
  written in lower-case hex digits, \<^verbatim>\<open>abbr()\<close> returns bytes, and
  \<^verbatim>\<open>parseAbbr\<close> on a reader positioned at these bytes returns, consumes exactly
  them and leaves in the receiver, whatever it held before, the twelve header fields
  of \<open>h\<close>: \<open>version\<close>, \<open>prevHash\<close>, \<open>merkleRoot\<close>,
  \<open>hashMerkleRootWithData\<close>, \<open>hashMerkleRootWithPrevData\<close>, \<open>time\<close>, \<open>bits\<close>,
  \<open>nonce\<close>, \<open>outpointhash\<close>, \<open>outpointn\<close>, \<open>blocksigsize\<close> and \<open>blocksig\<close>.
\<close>

theorem abbr_roundtrip:
  assumes "valid_header h"
  shows "\<exists>raw this'. abbr h = Returns raw \<and>
           parseAbbr (this, raw @ rest) = (Returns (), this', rest) \<and>
           header_fields this' = header_fields h"
  using abbr_valid [OF assms] parseAbbr_wire_format [OF assms, of this rest]
  by auto

theorem abbr_roundtrip_witness:
  "valid_header sample_block \<and>
   (\<exists>raw this'. abbr sample_block = Returns raw \<and>
      parseAbbr (AbstractBlock :: sample_tx block, raw) = (Returns (), this', []) \<and>
      header_fields this' = header_fields sample_block)"
  using abbr_roundtrip [OF valid_sample_block, of "AbstractBlock :: sample_tx block" "[]"]
    valid_sample_block
  by simp

lemma hex_decode_replicate:
  "hex_value c = Some d \<Longrightarrow>
   hex_decode (replicate (2 * k) c) = Some (replicate k (of_nat (16 * d + d)))"
  by (induction k) simp_all

lemma hex_bytes_upper:
  "hex_bytes (replicate 64 (CHR ''A'')) = hex_bytes (replicate 64 (CHR ''a''))"
proof -
  have "hex_value (CHR ''A'') = Some 10" "hex_value (CHR ''a'') = Some 10"
    by (simp_all add: hex_value_def)
  from this [THEN hex_decode_replicate, of 32] show ?thesis
    by (simp add: hex_bytes_def)
qed

lemma writeHash_upper:
  "writeHash (JStr (replicate 64 (CHR ''A''))) bw =
   (Returns (), bw @ hex_bytes (replicate 64 (CHR ''A'')))"
proof -
  have "hex_value (CHR ''A'') = Some 10"
    by (simp add: hex_value_def)
  from this [THEN hex_decode_replicate, of 32] show ?thesis
    by (simp add: hex_bytes_def)
qed

lemma upper_block_eq:
  "upper_block = sample_block\<lparr>prevHash := JStr (replicate 64 (CHR ''A''))\<rparr>"
  by (simp add: upper_block_def parseOptions_def upper_options_def js_defs
      AbstractBlock_def sample_block_eq)

text \<open>
  C2 as the spec words it fails on a header whose \<open>prevHash\<close> is written in upper-case
  hex digits: \<^verbatim>\<open>parseOptions\<close> accepts it, \<^verbatim>\<open>abbr()\<close> serializes it, and
  \<^verbatim>\<open>parseAbbr\<close> reads the hash back in lower case, which is another string.
\<close>

theorem abbr_roundtrip_upper_counterexample:
  "fst (parseOptions util_isNumber upper_options (AbstractBlock :: sample_tx block)) =
     Returns () \<and>
   prevHash upper_block = JStr (replicate 64 (CHR ''A'')) \<and>
   abbr upper_block = Returns (concat (wire_format upper_block)) \<and>
   fst (parseAbbr (AbstractBlock :: sample_tx block, concat (wire_format upper_block))) =
     Returns () \<and>
   prevHash (fst (snd (parseAbbr (AbstractBlock :: sample_tx block,
                                  concat (wire_format upper_block))))) =
     JStr (replicate 64 (CHR ''a'')) \<and>
   header_fields (fst (snd (parseAbbr (AbstractBlock :: sample_tx block,
                                       concat (wire_format upper_block))))) \<noteq>
     header_fields upper_block"
proof -
  let ?lower = "sample_block\<lparr>prevHash := JStr (replicate 64 (CHR ''a''))\<rparr>"
  have built: "fst (parseOptions util_isNumber upper_options
      (AbstractBlock :: sample_tx block)) = Returns ()"
    by (simp add: parseOptions_def upper_options_def js_defs)
  have up: "prevHash upper_block = JStr (replicate 64 (CHR ''A''))"
    by (simp add: upper_block_eq)
  have lo: "is_hash (JStr (replicate 64 (CHR ''a'')))"
    by (simp add: is_lower_hex_def list_all_iff)
  with valid_sample_block have v: "valid_header ?lower"
    by (simp add: valid_header_def)
  have wf: "wire_format upper_block = wire_format ?lower"
    by (simp add: upper_block_eq wire_format_def hex_bytes_upper)
  have wh: "writeHash (JStr (replicate 64 (CHR ''A''))) =
      writeHash (JStr (replicate 64 (CHR ''a'')))"
  proof (rule ext)
    fix bw
    have "writeHash (JStr (replicate 64 (CHR ''a''))) bw =
        (Returns (), bw @ hex_bytes (str_of (JStr (replicate 64 (CHR ''a'')))))"
      using lo by (rule writeHash_valid)
    then show "writeHash (JStr (replicate 64 (CHR ''A''))) bw =
        writeHash (JStr (replicate 64 (CHR ''a''))) bw"
      by (simp only: writeHash_upper hex_bytes_upper str_of.simps)
  qed
  have "writeAbbr upper_block = writeAbbr ?lower"
    by (simp add: writeAbbr_def upper_block_eq wh)
  then have ab: "abbr upper_block = Returns (concat (wire_format upper_block))"
    using abbr_valid [OF v] by (simp add: abbr_def wf)
  from parseAbbr_wire_format [OF v, of "AbstractBlock :: sample_tx block" "[]"]
  obtain this' where
    run: "parseAbbr (AbstractBlock :: sample_tx block, concat (wire_format upper_block)) =
      (Returns (), this', [])"
    and hf: "header_fields this' = header_fields ?lower"
    by (auto simp: wf)
  from hf have low: "prevHash this' = JStr (replicate 64 (CHR ''a''))"
    by (simp add: header_fields_def)
  have "replicate 64 (CHR ''a'') \<noteq> replicate 64 (CHR ''A'')"
    by (simp add: replicate_eq_replicate)
  with low up have "header_fields this' \<noteq> header_fields upper_block"
    by (auto simp: header_fields_def)
  with built up ab run low show ?thesis by simp
qed

subsection \<open>What decoding leaves alone\<close>

lemma preserves_assignJ:
  assumes "\<And>v b. same_caches b (upd v b)"
  shows "preserves (\<lambda>s. same_caches this0 (fst s)) (assignJ rd upd)"
  using assms unfolding preserves_def same_caches_def
  by (auto simp: assignJ_def split: prod.splits outcome.splits)

lemma parseAbbr_frame:
  assumes "parseAbbr (this, br) = (r, this', br')"
  shows "same_caches this this'"
proof -
  have "preserves (\<lambda>s. same_caches this (fst s)) parseAbbr"
    unfolding parseAbbr_def
    by (intro preserves_seqJ_Cons preserves_seqJ_Nil preserves_assignJ)
       (simp_all add: same_caches_def)
  moreover have "same_caches this (fst (this, br))"
    by (simp add: same_caches_def)
  ultimately have "same_caches this (fst (this', br'))"
    using assms unfolding preserves_def by blast
  then show ?thesis by simp
qed

section \<open>Hashing\<close>

lemma hash_binary:
  "enc \<noteq> JStr ''hex'' \<Longrightarrow>
   hash h256 enc this =
     (case hash_slot this of
        Some d \<Rightarrow> (Returns (JBuf d), this)
      | None \<Rightarrow>
          (case abbr this of
             Throws e \<Rightarrow> (Throws e, this)
           | Returns raw \<Rightarrow>
               (Returns (JBuf (h256 raw)),
                if mutable this then this else this\<lparr>hash_slot := Some (h256 raw)\<rparr>)))"
  by (simp add: hash_def js_defs split: option.splits outcome.splits)


lemma hash_fills_slot:
  assumes "\<not> mutable this0" "hash h256 JUndefined this0 = (Returns (JBuf d), this)"
  shows "hash_slot this = Some d"
  using assms
  by (auto simp: hash_binary split: option.splits outcome.splits)

lemma writeAbbr_header_fields:
  "header_fields a = header_fields b \<Longrightarrow> writeAbbr a = writeAbbr b"
  by (simp add: writeAbbr_def header_fields_def)

lemma fresh_digest_header_fields:
  "header_fields a = header_fields b \<Longrightarrow> fresh_digest h256 a = fresh_digest h256 b"
  using writeAbbr_header_fields [of a b] by (simp add: fresh_digest_def abbr_def)

lemma fresh_digest_valid:
  "valid_header h \<Longrightarrow> fresh_digest h256 h = Returns (JBuf (h256 (concat (wire_format h))))"
  by (simp add: fresh_digest_def abbr_valid)

subsection \<open>The sample digest\<close>

lemma hex_decode_zeros: "hex_decode (replicate (2 * k) (CHR ''0'')) = Some (replicate k 0)"
  by (induction k) (simp_all add: hex_value_def)

lemma hex_bytes_NULL_HASH: "hex_bytes NULL_HASH = replicate 32 0"
  using hex_decode_zeros [of 32] by (simp add: NULL_HASH_def hex_bytes_def)

lemma sample_hash256_wire:
  assumes "prevHash h = JStr NULL_HASH"
  shows "sample_hash256 (concat (wire_format h)) =
           le_encode 4 (nat (num_of (version h))) @ replicate 28 0"
  using assms by (simp add: sample_hash256_def wire_format_def hex_bytes_NULL_HASH)

lemma le_decode_zeros: "le_decode (bs @ replicate k 0) = le_decode bs"
proof (induction bs)
  case Nil
  show ?case by (induction k) simp_all
next
  case (Cons b bs)
  then show ?case by simp
qed

lemma le_decode_sample_hash256:
  assumes "prevHash h = JStr NULL_HASH" "is_u32 (version h)"
  shows "int (le_decode (sample_hash256 (concat (wire_format h)))) = num_of (version h)"
proof -
  from assms(2) obtain n where n: "version h = JNum n" "0 \<le> n" "n < 4294967296"
    by (cases "version h") auto
  then have "le_decode (le_encode 4 (nat n)) = nat n"
    using le_decode_encode [of "nat n" 4] by simp
  with n assms(1) show ?thesis
    by (simp add: sample_hash256_wire le_decode_zeros)
qed

lemma valid_version_update:
  "valid_header h \<Longrightarrow> is_u32 v \<Longrightarrow> valid_header (h\<lparr>version := v\<rparr>)"
  by (simp add: valid_header_def)

lemma valid_bits_update:
  "valid_header h \<Longrightarrow> is_u32 v \<Longrightarrow> valid_header (h\<lparr>bits := v\<rparr>)"
  by (simp add: valid_header_def)

lemma valid_header_caches:
  "valid_header (h\<lparr>hash_slot := c\<rparr>) = valid_header h"
  "valid_header (h\<lparr>mutable := b\<rparr>) = valid_header h"
  by (simp_all add: valid_header_def)

lemma wire_format_caches:
  "wire_format (h\<lparr>hash_slot := c\<rparr>) = wire_format h"
  "wire_format (h\<lparr>mutable := b\<rparr>) = wire_format h"
  by (simp_all add: wire_format_def)

lemma hashed_block_eq:
  "hashed_block =
     sample_block\<lparr>hash_slot := Some (sample_hash256 (concat (wire_format sample_block)))\<rparr>"
  by (simp add: hashed_block_def hash_binary abbr_valid valid_sample_block sample_block_facts)

lemma valid_other_block: "valid_header other_block"
  unfolding other_block_def
  by (rule valid_version_update [OF valid_sample_block]) simp

lemma sample_digests_differ:
  "sample_hash256 (concat (wire_format sample_block)) \<noteq>
   sample_hash256 (concat (wire_format other_block))"
proof
  assume "sample_hash256 (concat (wire_format sample_block)) =
          sample_hash256 (concat (wire_format other_block))"
  then have "int (le_decode (sample_hash256 (concat (wire_format sample_block)))) =
             int (le_decode (sample_hash256 (concat (wire_format other_block))))"
    by simp
  then show False
    by (simp add: le_decode_sample_hash256 other_block_def sample_block_facts)
qed


















section \<open>Verification\<close>

lemma verifyPOW_frame:
  assumes "verifyPOW cv h256 this = (r, this')"
  shows "this' = this\<lparr>hash_slot := hash_slot this'\<rparr> \<and>
         (hash_slot this' = hash_slot this \<or>
          (mutable this = False \<and> hash_slot this = None \<and>
           (\<exists>raw. abbr this = Returns raw \<and> hash_slot this' = Some (h256 raw))))"
  using assms
  by (auto simp: verifyPOW_def hash_binary js_defs split: option.splits outcome.splits if_splits)

lemma verifyPOW_fresh:
  assumes "valid_header h" "hash_slot h = None" "\<not> mutable h"
  shows "verifyPOW cv h256 h =
           (Returns (cv (JBuf (h256 (concat (wire_format h)))) (bits h)),
            h\<lparr>hash_slot := Some (h256 (concat (wire_format h)))\<rparr>)"
  using assms by (simp add: verifyPOW_def hash_binary abbr_valid js_defs)

lemma consensus_zero_bits: "consensus_verifyPOW h (JNum 0) = False"
  by (cases h) simp_all

lemma consensus_sample:
  "n \<le> 1 \<Longrightarrow> consensus_verifyPOW (JBuf (le_encode 4 n @ replicate 28 0)) (JNum 486604799)"
  using le_decode_encode [of n 4] by (simp add: le_decode_zeros Let_def)

lemma zero_bits_facts:
  "valid_header zero_bits_block" "hash_slot zero_bits_block = None"
  "\<not> mutable zero_bits_block" "bits zero_bits_block = JNum 0"
  using valid_bits_update [OF valid_sample_block, of "JNum 0"]
  by (simp_all add: zero_bits_block_def) (simp_all add: sample_block_eq)

lemma verifyPOW_zero_bits:
  "verifyPOW consensus_verifyPOW h256 zero_bits_block =
     (Returns False,
      zero_bits_block\<lparr>hash_slot := Some (h256 (concat (wire_format zero_bits_block)))\<rparr>)"
  by (simp add: verifyPOW_fresh zero_bits_facts consensus_zero_bits)

lemma verifyPOW_sample:
  "verifyPOW consensus_verifyPOW sample_hash256 sample_block = (Returns True, hashed_block)"
  using consensus_sample [of 1]
  by (simp add: verifyPOW_fresh valid_sample_block sample_block_facts sample_hash256_wire
      hashed_block_eq)

text \<open>
  C1. \<^verbatim>\<open>verify()\<close> returns true exactly when the proof-of-work check returns true
  and the body check, run in the state the first check left, returns true; and when the
  proof-of-work check returns false, \<^verbatim>\<open>verify()\<close> returns false with the state of
  that check, whatever the body check is: it is not called, so even a body check that
  would throw or write to the block has no effect.
\<close>

theorem verify_two_phase:
  "(verify this_verifyPOW this_verifyBody this = (Returns True, this'') \<longleftrightarrow>
      (\<exists>this'. this_verifyPOW this = (Returns True, this') \<and>
               this_verifyBody this' = (Returns True, this''))) \<and>
   (this_verifyPOW this = (Returns False, this') \<longrightarrow>
      verify this_verifyPOW this_verifyBody this = (Returns False, this'))"
  by (auto simp: verify_def js_defs split: prod.splits outcome.splits if_splits)

theorem verify_two_phase_witness:
  "verifyPOW consensus_verifyPOW sample_hash256 sample_block = (Returns True, hashed_block) \<and>
   Headers_verifyBody hashed_block = (Returns True, hashed_block) \<and>
   verify (verifyPOW consensus_verifyPOW sample_hash256) Headers_verifyBody sample_block =
     (Returns True, hashed_block) \<and>
   fst (verifyPOW consensus_verifyPOW sample_hash256 zero_bits_block) = Returns False \<and>
   fst (verify (verifyPOW consensus_verifyPOW sample_hash256) verifyBody zero_bits_block) =
     Returns False"
proof -
  have b: "Headers_verifyBody hashed_block = (Returns True, hashed_block)"
    by (simp add: Headers_verifyBody_def returnJ_def)
  from verify_two_phase
    [where this_verifyPOW = "verifyPOW consensus_verifyPOW sample_hash256"
       and this_verifyBody = Headers_verifyBody and this = sample_block
       and this'' = hashed_block]
    verifyPOW_sample b
  have 1: "verify (verifyPOW consensus_verifyPOW sample_hash256) Headers_verifyBody
      sample_block = (Returns True, hashed_block)"
    by blast
  from verify_two_phase
    [where this_verifyPOW = "verifyPOW consensus_verifyPOW sample_hash256"
       and this_verifyBody = verifyBody and this = zero_bits_block
       and this' = "zero_bits_block\<lparr>hash_slot :=
          Some (sample_hash256 (concat (wire_format zero_bits_block)))\<rparr>"]
    verifyPOW_zero_bits [of sample_hash256]
  have 2: "fst (verify (verifyPOW consensus_verifyPOW sample_hash256) verifyBody
      zero_bits_block) = Returns False"
    by simp
  from verifyPOW_sample b 1 2 verifyPOW_zero_bits [of sample_hash256] show ?thesis
    by simp
qed

text \<open>
  C6. The body check of the abstract base throws \<open>Error('Abstract method.')\<close> on every
  block and leaves the block as it was; so on a block with no body check of its own whose
  proof-of-work check returns true, \<^verbatim>\<open>verify()\<close> throws that error too and does not
  return false.
\<close>

theorem verifyBody_abstract:
  "verifyBody this = (Throws (Error ''Abstract method.''), this) \<and>
   (this_verifyPOW this = (Returns True, this') \<longrightarrow>
      verify this_verifyPOW verifyBody this = (Throws (Error ''Abstract method.''), this'))"
  by (simp add: verifyBody_def verify_def js_defs)

theorem verifyBody_abstract_witness:
  "verifyPOW consensus_verifyPOW sample_hash256 sample_block = (Returns True, hashed_block) \<and>
   verify (verifyPOW consensus_verifyPOW sample_hash256) verifyBody sample_block =
     (Throws (Error ''Abstract method.''), hashed_block)"
  using verifyBody_abstract
    [where this_verifyPOW = "verifyPOW consensus_verifyPOW sample_hash256"
       and this = sample_block and this' = hashed_block]
    verifyPOW_sample
  by simp

text \<open>
  C7, as the code has it. When \<^verbatim>\<open>verify()\<close> returns false, and the body check of the
  variant leaves the block as it was whenever it returns false, then no field of the block
  has changed but, possibly, the binary hash slot: that slot either has its old content
  or was empty, on an immutable block, and now holds the digest of the abbreviated
  serialization. The header fields, the hex slot, \<open>size\<close> and \<open>witnessSize\<close> are as
  before.
\<close>

theorem verify_false_frame:
  assumes "verify (verifyPOW cv h256) this_verifyBody this = (Returns False, this')"
    and "\<And>s s'. this_verifyBody s = (Returns False, s') \<Longrightarrow> s' = s"
  shows "this' = this\<lparr>hash_slot := hash_slot this'\<rparr> \<and>
         (hash_slot this' = hash_slot this \<or>
          (mutable this = False \<and> hash_slot this = None \<and>
           (\<exists>raw. abbr this = Returns raw \<and> hash_slot this' = Some (h256 raw))))"
proof -
  obtain p this1 where pow: "verifyPOW cv h256 this = (Returns p, this1)"
    using assms(1) by (auto simp: verify_def js_defs split: prod.splits outcome.splits)
  have "this1 = this'"
  proof (cases p)
    case True
    with pow assms(1) have "this_verifyBody this1 = (Returns False, this')"
      by (auto simp: verify_def js_defs split: prod.splits outcome.splits if_splits)
    then show ?thesis by (rule assms(2) [symmetric])
  next
    case False
    with pow assms(1) show ?thesis by (simp add: verify_def js_defs)
  qed
  with pow show ?thesis using verifyPOW_frame [of cv h256 this "Returns p" this'] by blast
qed

theorem verify_false_frame_witness:
  "verify (verifyPOW consensus_verifyPOW sample_hash256) mismatch_verifyBody sample_block =
     (Returns False, hashed_block) \<and>
   hashed_block = sample_block\<lparr>hash_slot := hash_slot hashed_block\<rparr> \<and>
   mutable sample_block = False \<and> hash_slot sample_block = None \<and>
   hash_slot hashed_block = Some (sample_hash256 (concat (wire_format sample_block)))"
proof -
  have v: "verify (verifyPOW consensus_verifyPOW sample_hash256) mismatch_verifyBody
      sample_block = (Returns False, hashed_block)"
    using verifyPOW_sample
    by (simp add: verify_def mismatch_verifyBody_def js_defs)
  have b: "\<And>s s'. mismatch_verifyBody s = (Returns False, s') \<Longrightarrow> s' = s"
    by (simp add: mismatch_verifyBody_def returnJ_def)
  from verify_false_frame [OF v b]
  have "hashed_block = sample_block\<lparr>hash_slot := hash_slot hashed_block\<rparr>"
    by (rule conjunct1)
  with v show ?thesis
    by (simp add: sample_block_facts hashed_block_eq)
qed

text \<open>
  C7 as the spec words it fails on the sample header with a compact target of zero:
  the proof-of-work check fails, \<^verbatim>\<open>verify()\<close> returns false, and the hash slot,
  empty before the call, holds the digest after it.
\<close>

theorem verify_false_writes_cache_counterexample:
  "fst (verify (verifyPOW consensus_verifyPOW sample_hash256) verifyBody zero_bits_block) =
     Returns False \<and>
   hash_slot zero_bits_block = None \<and>
   hash_slot (snd (verify (verifyPOW consensus_verifyPOW sample_hash256) verifyBody
                     zero_bits_block)) =
     Some (sample_hash256 (concat (wire_format zero_bits_block)))"
  by (simp add: verify_def js_defs verifyPOW_zero_bits zero_bits_facts)

section \<open>Decoding into a hashed block\<close>

text \<open>
  C10. \<^verbatim>\<open>parseAbbr\<close>, whether it returns or throws, leaves the four cache slots as
  they were, while on the bytes of a well-formed header it returns with the twelve
  header fields of that header in the receiver. So when \<^verbatim>\<open>hash()\<close> has returned a
  digest on an immutable block and \<^verbatim>\<open>parseAbbr\<close> is then applied to the block, the
  next \<^verbatim>\<open>hash()\<close> returns that same digest and computes nothing.
\<close>

theorem parseAbbr_keeps_cache:
  assumes "parseAbbr (this, br) = (r, this', br')"
  shows "hash_slot this' = hash_slot this \<and> hhash_slot this' = hhash_slot this \<and>
         size_slot this' = size_slot this \<and> witness_slot this' = witness_slot this \<and>
         (valid_header h \<and> br = concat (wire_format h) @ rest \<longrightarrow>
            r = Returns () \<and> header_fields this' = header_fields h) \<and>
         (\<not> mutable this0 \<and> hash h256 JUndefined this0 = (Returns (JBuf d), this) \<longrightarrow>
            hash h256 JUndefined this' = (Returns (JBuf d), this'))"
proof -
  from parseAbbr_frame [OF assms] have slots:
    "hash_slot this' = hash_slot this" "hhash_slot this' = hhash_slot this"
    "size_slot this' = size_slot this" "witness_slot this' = witness_slot this"
    by (simp_all add: same_caches_def)
  have decoded: "r = Returns () \<and> header_fields this' = header_fields h"
    if "valid_header h" "br = concat (wire_format h) @ rest"
    using parseAbbr_wire_format [OF that(1), of this rest] assms that(2) by auto
  have stale: "hash h256 JUndefined this' = (Returns (JBuf d), this')"
    if "\<not> mutable this0" "hash h256 JUndefined this0 = (Returns (JBuf d), this)"
  proof -
    from that have "hash_slot this = Some d" by (rule hash_fills_slot)
    with slots(1) have "hash_slot this' = Some d" by simp
    then show ?thesis by (simp add: hash_binary)
  qed
  from slots decoded stale show ?thesis by blast
qed

theorem parseAbbr_keeps_cache_witness:
  "\<not> mutable sample_block \<and>
   hash sample_hash256 JUndefined sample_block =
     (Returns (JBuf (sample_hash256 (concat (wire_format sample_block)))), hashed_block) \<and>
   valid_header other_block \<and>
   fst (parseAbbr (hashed_block, concat (wire_format other_block))) = Returns () \<and>
   header_fields reparsed_block = header_fields other_block \<and>
   hash_slot reparsed_block = hash_slot hashed_block \<and>
   hash sample_hash256 JUndefined reparsed_block =
     (Returns (JBuf (sample_hash256 (concat (wire_format sample_block)))), reparsed_block) \<and>
   fresh_digest sample_hash256 reparsed_block =
     Returns (JBuf (sample_hash256 (concat (wire_format other_block)))) \<and>
   sample_hash256 (concat (wire_format sample_block)) \<noteq>
     sample_hash256 (concat (wire_format other_block))"
proof -
  obtain r this' br' where
    run: "parseAbbr (hashed_block, concat (wire_format other_block)) = (r, this', br')"
    by (cases "parseAbbr (hashed_block, concat (wire_format other_block))") auto
  then have this': "reparsed_block = this'"
    by (simp add: reparsed_block_def)
  have h: "hash sample_hash256 JUndefined sample_block =
      (Returns (JBuf (sample_hash256 (concat (wire_format sample_block)))), hashed_block)"
    by (simp add: hash_binary abbr_valid valid_sample_block sample_block_facts hashed_block_eq)
  note kc = parseAbbr_keeps_cache [OF run, where h = other_block and rest = "[]"
      and ?this0.0 = sample_block and ?h256.0 = sample_hash256
      and d = "sample_hash256 (concat (wire_format sample_block))"]
  from kc valid_other_block have dec: "r = Returns ()"
      "header_fields this' = header_fields other_block"
    by simp_all
  from kc have sl: "hash_slot this' = hash_slot hashed_block"
    by (rule conjunct1)
  from kc h have st: "hash sample_hash256 JUndefined this' =
      (Returns (JBuf (sample_hash256 (concat (wire_format sample_block)))), this')"
    by (simp add: sample_block_facts)
  from dec(2) have "fresh_digest sample_hash256 this' = fresh_digest sample_hash256 other_block"
    by (rule fresh_digest_header_fields)
  then have fd: "fresh_digest sample_hash256 this' =
      Returns (JBuf (sample_hash256 (concat (wire_format other_block))))"
    by (simp add: fresh_digest_valid valid_other_block)
  from run dec sl st fd h this' valid_other_block sample_digests_differ show ?thesis
    by (simp add: sample_block_facts)
qed

end
